theory Spec2Isabelle
  imports Main
begin

section \<open>Python values, errors and the string methods used by the decorator\<close>

text \<open>
  The module \<^verbatim>\<open>qutebrowser/commands/utils.py\<close> holds the global \<^verbatim>\<open>cmd_dict\<close> and
  the class \<^verbatim>\<open>register\<close>. Exceptions are values of a sum type: the two exceptions the
  module can raise are \<^verbatim>\<open>ValueError\<close> (the explicit \<^verbatim>\<open>raise\<close> of \<^verbatim>\<open>__init__\<close> and a
  failed tuple unpacking) and \<^verbatim>\<open>IndexError\<close> (an index \<^verbatim>\<open>[0]\<close> into an empty list).
\<close>

datatype error = ValueError | IndexError

text \<open>Default values of parameters: the Python constants a handler definition uses.\<close>

datatype pyval = PyNone | PyInt int | PyStr string | PyBool bool

text \<open>
  A Python \<^verbatim>\<open>str\<close> is a \<^typ>\<open>string\<close> whose characters are the code points below 256.
  \<^verbatim>\<open>str.splitlines\<close> breaks at the line boundaries LF, VT, FF, CR, FS, GS, RS and NEL,
  and takes CR LF as one boundary; \<^verbatim>\<open>str.strip()\<close> removes the white space characters
  TAB..CR, FS..US, SPACE, NEL and NBSP at both ends; \<^verbatim>\<open>str.rstrip(chars)\<close> removes every
  trailing character that occurs in \<^verbatim>\<open>chars\<close>.
\<close>

definition is_linebreak :: "char \<Rightarrow> bool" where
  "is_linebreak c \<longleftrightarrow>
     c \<in> set [CHR 0x0A, CHR 0x0B, CHR 0x0C, CHR 0x0D, CHR 0x1C, CHR 0x1D, CHR 0x1E, CHR 0x85]"

definition is_space :: "char \<Rightarrow> bool" where
  "is_space c \<longleftrightarrow>
     c \<in> set [CHR 0x09, CHR 0x0A, CHR 0x0B, CHR 0x0C, CHR 0x0D, CHR 0x1C, CHR 0x1D,
               CHR 0x1E, CHR 0x1F, CHR 0x20, CHR 0x85, CHR 0xA0]"

text \<open>
  \<^verbatim>\<open>splitlines\<close> scans the text once; \<open>cur\<close> is the line read so far, in reverse. A
  last line is produced only when it is not empty, so the empty text has no line at all.
\<close>

fun splitlines_from :: "string \<Rightarrow> string \<Rightarrow> string list" where
  "splitlines_from cur [] = (if cur = [] then [] else [rev cur])"
| "splitlines_from cur [c] =
     (if is_linebreak c then [rev cur] else splitlines_from (c # cur) [])"
| "splitlines_from cur (c # d # cs) =
     (if is_linebreak c then
        rev cur # (if c = CHR 0x0D \<and> d = CHR 0x0A then splitlines_from [] cs
                   else splitlines_from [] (d # cs))
      else splitlines_from (c # cur) (d # cs))"

definition splitlines :: "string \<Rightarrow> string list" where
  "splitlines s = splitlines_from [] s"

definition lstrip :: "string \<Rightarrow> string" where
  "lstrip s = dropWhile is_space s"

definition strip :: "string \<Rightarrow> string" where
  "strip s = rev (dropWhile is_space (rev (lstrip s)))"

definition rstrip_chars :: "string \<Rightarrow> string \<Rightarrow> string" where
  "rstrip_chars chars s = rev (dropWhile (\<lambda>c. c \<in> set chars) (rev s))"

text \<open>\<^verbatim>\<open>str.lower\<close> on the code points below 256: A..Z and the capital letters of Latin-1.\<close>

definition lower_char :: "char \<Rightarrow> char" where
  "lower_char c =
     (let n = (of_char c :: nat)
      in if (65 \<le> n \<and> n \<le> 90) \<or> (192 \<le> n \<and> n \<le> 222 \<and> n \<noteq> 215)
         then char_of (n + 32) else c)"

definition lower :: "string \<Rightarrow> string" where
  "lower s = map lower_char s"

text \<open>\<^verbatim>\<open>xs[0]\<close> raises \<^verbatim>\<open>IndexError\<close> on an empty list.\<close>

definition index0 :: "'a list \<Rightarrow> error + 'a" where
  "index0 xs = (case xs of [] \<Rightarrow> Inl IndexError | x # _ \<Rightarrow> Inr x)"

section \<open>Handlers and their argument specification\<close>

text \<open>
  A handler is a Python function: its identity, \<^verbatim>\<open>__name__\<close>, \<^verbatim>\<open>__doc__\<close> (absent when
  the function has no docstring), its positional parameters in order, each with its
  default value when it carries one, the name of the \<^verbatim>\<open>*args\<close> parameter when there
  is one, and its keyword-only parameters (those written after \<^verbatim>\<open>*args\<close> or after a
  bare \<^verbatim>\<open>*\<close>), each with its default value when it carries one.
\<close>

record func =
  func_id :: nat
  func_name :: string
  func_doc :: "string option"
  func_params :: "(string \<times> pyval option) list"
  func_varargs :: "string option"
  func_kwonly :: "(string \<times> pyval option) list"

text \<open>
  The result of \<^verbatim>\<open>inspect.getfullargspec(func)\<close>: \<^verbatim>\<open>args\<close> lists the names of the
  positional parameters, \<^verbatim>\<open>varargs\<close> is the name of the \<^verbatim>\<open>*\<close> parameter or
  \<^verbatim>\<open>None\<close>, and \<^verbatim>\<open>defaults\<close> is the tuple of the default values of the positional
  parameters, or \<^verbatim>\<open>None\<close> when none of them carries one. The keyword-only parameters
  are reported apart, in \<^verbatim>\<open>kwonlyargs\<close> and \<^verbatim>\<open>kwonlydefaults\<close>; the module reads
  neither.
\<close>

record argspec =
  args :: "string list"
  varargs :: "string option"
  defaults :: "pyval list option"
  kwonlyargs :: "string list"
  kwonlydefaults :: "(string \<times> pyval) list option"

definition getfullargspec :: "func \<Rightarrow> argspec" where
  "getfullargspec f =
     (let ds = List.map_filter snd (func_params f);
          kds = List.map_filter (\<lambda>p. map_option (Pair (fst p)) (snd p)) (func_kwonly f)
      in \<lparr> args = map fst (func_params f),
           varargs = func_varargs f,
           defaults = (if ds = [] then None else Some ds),
           kwonlyargs = map fst (func_kwonly f),
           kwonlydefaults = (if kds = [] then None else Some kds) \<rparr>)"

section \<open>The decorator class \<^verbatim>\<open>register\<close>\<close>

text \<open>
  \<^verbatim>\<open>name\<close> is a string or a list of strings; \<^verbatim>\<open>nargs\<close> is an int or an iterable, whose
  elements are ints or \<^verbatim>\<open>None\<close> (no upper bound). Every attribute may be \<^verbatim>\<open>None\<close>
  except \<^verbatim>\<open>maxsplit\<close> and \<^verbatim>\<open>hide\<close>.
\<close>

datatype name_arg = NameStr string | NameList "string list"

datatype nargs_arg = NargsInt int | NargsSeq "int option list"

type_synonym mode = string

record register =
  reg_name :: "name_arg option"
  reg_maxsplit :: int
  reg_hide :: bool
  reg_nargs :: "nargs_arg option"
  reg_instance :: "string option"
  reg_completion :: "string list option"
  reg_modes :: "mode list option"
  reg_not_modes :: "mode list option"

text \<open>
  \<^verbatim>\<open>Command\<close> is defined in another module; \<^verbatim>\<open>__call__\<close> builds it from keyword
  arguments, which are the fields here.
\<close>

record command =
  cmd_name :: string
  cmd_maxsplit :: int
  cmd_hide :: bool
  cmd_nargs :: "int option \<times> int option"
  cmd_count :: bool
  cmd_desc :: string
  cmd_instance :: "string option"
  cmd_handler :: func
  cmd_completion :: "string list option"
  cmd_modes :: "mode list option"
  cmd_not_modes :: "mode list option"

type_synonym cmd_dict = "string \<rightharpoonup> command"

text \<open>
  \<^verbatim>\<open>register.__init__(instance, name, nargs, maxsplit, hide, completion, modes,
  not_modes)\<close>: raises when both mode lists are given, and saves its arguments otherwise.
\<close>

definition register_init ::
  "string option \<Rightarrow> name_arg option \<Rightarrow> nargs_arg option \<Rightarrow> int \<Rightarrow> bool \<Rightarrow>
   string list option \<Rightarrow> mode list option \<Rightarrow> mode list option \<Rightarrow> error + register" where
  "register_init inst nm na ms hi co mo nmo =
     (if mo \<noteq> None \<and> nmo \<noteq> None then Inl ValueError
      else Inr \<lparr> reg_name = nm, reg_maxsplit = ms, reg_hide = hi, reg_nargs = na,
                 reg_instance = inst, reg_completion = co, reg_modes = mo,
                 reg_not_modes = nmo \<rparr>)"

text \<open>
  \<^verbatim>\<open>register._get_nargs_count(func)\<close> returns \<^verbatim>\<open>(count, (minargs, maxargs))\<close>. The
  unpacking \<^verbatim>\<open>minargs, maxargs = self.nargs\<close> raises \<^verbatim>\<open>ValueError\<close> unless the iterable
  has two elements.
\<close>

definition get_nargs_count :: "register \<Rightarrow> func \<Rightarrow> error + (bool \<times> (int option \<times> int option))" where
  "get_nargs_count self f =
     (let spec = getfullargspec f;
          count = (''count'' \<in> set (args spec))
      in case reg_nargs self of
           Some (NargsSeq xs) \<Rightarrow>
             (case xs of [minargs, maxargs] \<Rightarrow> Inr (count, (minargs, maxargs))
                       | _ \<Rightarrow> Inl ValueError)
         | Some (NargsInt n) \<Rightarrow> Inr (count, (Some n, Some n))
         | None \<Rightarrow>
             (let defaultcount = (case defaults spec of Some ds \<Rightarrow> int (length ds) | None \<Rightarrow> 0);
                  argcount = int (length (args spec));
                  argcount = (if ''self'' \<in> set (args spec) then argcount - 1 else argcount);
                  minargs = argcount - defaultcount;
                  maxargs = (if varargs spec \<noteq> None then None
                             else Some (argcount - (if count then 1 else 0)))
              in Inr (count, (Some minargs, maxargs))))"

text \<open>
  The description: \<^verbatim>\<open>func.__doc__.splitlines()[0].strip().rstrip('.')\<close> when there is a
  docstring, the empty string otherwise.
\<close>

definition get_desc :: "func \<Rightarrow> error + string" where
  "get_desc f =
     (case func_doc f of
        Some doc \<Rightarrow>
          (case index0 (splitlines doc) of
             Inl e \<Rightarrow> Inl e
           | Inr line \<Rightarrow> Inr (rstrip_chars ''.'' (strip line)))
      | None \<Rightarrow> Inr '''')"

text \<open>
  The first lines of \<^verbatim>\<open>__call__\<close>: the main name and the list of names. A list of names
  is indexed at 0, which raises on the empty list.
\<close>

definition resolve_names :: "register \<Rightarrow> func \<Rightarrow> error + (string \<times> string list)" where
  "resolve_names self f =
     (case (case reg_name self of None \<Rightarrow> NameStr (lower (func_name f)) | Some n \<Rightarrow> n) of
        NameStr s \<Rightarrow> Inr (s, [] @ [s])
      | NameList l \<Rightarrow>
          (case index0 l of Inl e \<Rightarrow> Inl e | Inr mainname \<Rightarrow> Inr (mainname, [] @ l)))"

text \<open>The loop \<^verbatim>\<open>for name in names: cmd_dict[name] = cmd\<close>.\<close>

fun store_all :: "string list \<Rightarrow> command \<Rightarrow> cmd_dict \<Rightarrow> cmd_dict" where
  "store_all [] cmd d = d"
| "store_all (n # ns) cmd d = store_all ns cmd (d(n \<mapsto> cmd))"

text \<open>
  \<^verbatim>\<open>register.__call__(func)\<close>, on the dictionary \<^verbatim>\<open>cmd_dict\<close>: the result is the value
  returned or the exception raised, together with the dictionary afterwards.
\<close>

definition register_call :: "register \<Rightarrow> func \<Rightarrow> cmd_dict \<Rightarrow> (error + func) \<times> cmd_dict" where
  "register_call self f d =
     (case resolve_names self f of
        Inl e \<Rightarrow> (Inl e, d)
      | Inr (mainname, names) \<Rightarrow>
          (case get_nargs_count self f of
             Inl e \<Rightarrow> (Inl e, d)
           | Inr (count, nargs) \<Rightarrow>
               (case get_desc f of
                  Inl e \<Rightarrow> (Inl e, d)
                | Inr desc \<Rightarrow>
                    (let cmd = \<lparr> cmd_name = mainname, cmd_maxsplit = reg_maxsplit self,
                                 cmd_hide = reg_hide self, cmd_nargs = nargs, cmd_count = count,
                                 cmd_desc = desc, cmd_instance = reg_instance self,
                                 cmd_handler = f, cmd_completion = reg_completion self,
                                 cmd_modes = reg_modes self,
                                 cmd_not_modes = reg_not_modes self \<rparr>
                     in (Inr f, store_all names cmd d)))))"

text \<open>
  The decoration \<^verbatim>\<open>@register(...)\<close> of a function definition constructs the decorator and
  calls it on the function.
\<close>

definition decorate ::
  "string option \<Rightarrow> name_arg option \<Rightarrow> nargs_arg option \<Rightarrow> int \<Rightarrow> bool \<Rightarrow>
   string list option \<Rightarrow> mode list option \<Rightarrow> mode list option \<Rightarrow>
   func \<Rightarrow> cmd_dict \<Rightarrow> (error + func) \<times> cmd_dict" where
  "decorate inst nm na ms hi co mo nmo f d =
     (case register_init inst nm na ms hi co mo nmo of
        Inl e \<Rightarrow> (Inl e, d)
      | Inr self \<Rightarrow> register_call self f d)"

section \<open>Notions of the specification\<close>

text \<open>
  A signature is well formed when the names of its positional parameters are pairwise
  distinct; Python rejects any other function definition. The receiver is the
  positional parameter named \<^verbatim>\<open>self\<close>, which is how the module detects it.
  \<open>nonreceiver_params\<close> and \<open>default_params\<close> are what the module counts: the positional
  parameters other than the receiver, and the positional parameters that carry a default
  value (the receiver among them when it carries one).
\<close>

definition wf_signature :: "func \<Rightarrow> bool" where
  "wf_signature f \<longleftrightarrow> distinct (map fst (func_params f))"

definition nonreceiver_params :: "func \<Rightarrow> (string \<times> pyval option) list" where
  "nonreceiver_params f = filter (\<lambda>p. fst p \<noteq> ''self'') (func_params f)"

definition default_params :: "func \<Rightarrow> (string \<times> pyval option) list" where
  "default_params f = filter (\<lambda>p. snd p \<noteq> None) (func_params f)"

text \<open>
  The counts as the specification words them, over the whole signature, positional and
  keyword-only parameters alike: the parameters other than the receiver, and those of
  them that carry a default value. \<open>nonreceiver_defaults\<close> is the second count over the
  positional parameters only.
\<close>

definition signature_params :: "func \<Rightarrow> (string \<times> pyval option) list" where
  "signature_params f = func_params f @ func_kwonly f"

definition spec_params :: "func \<Rightarrow> (string \<times> pyval option) list" where
  "spec_params f = filter (\<lambda>p. fst p \<noteq> ''self'') (signature_params f)"

definition spec_defaults :: "func \<Rightarrow> (string \<times> pyval option) list" where
  "spec_defaults f = filter (\<lambda>p. snd p \<noteq> None) (spec_params f)"

definition nonreceiver_defaults :: "func \<Rightarrow> (string \<times> pyval option) list" where
  "nonreceiver_defaults f = filter (\<lambda>p. snd p \<noteq> None) (nonreceiver_params f)"

text \<open>The same handler with the parameter \<open>n\<close>, and its default value, removed.\<close>

definition remove_param :: "string \<Rightarrow> func \<Rightarrow> func" where
  "remove_param n f =
     f\<lparr>func_params := filter (\<lambda>p. fst p \<noteq> n) (func_params f),
       func_kwonly := filter (\<lambda>p. fst p \<noteq> n) (func_kwonly f)\<rparr>"

text \<open>
  The description as the specification words it: the first line of the documentation is
  the text before the first line boundary; stripping a single trailing period removes at
  most one character, stripping all of them repeats that until no period is left at the
  end.
\<close>

definition first_line :: "string \<Rightarrow> string" where
  "first_line doc = takeWhile (\<lambda>c. \<not> is_linebreak c) doc"

definition strip_one_period :: "string \<Rightarrow> string" where
  "strip_one_period s = (if s \<noteq> [] \<and> last s = CHR ''.'' then butlast s else s)"

function strip_all_periods :: "string \<Rightarrow> string" where
  "strip_all_periods s =
     (if s \<noteq> [] \<and> last s = CHR ''.'' then strip_all_periods (butlast s) else s)"
  by pat_completeness auto
termination
  by (relation "measure length") auto

declare strip_all_periods.simps [simp del]

section \<open>Concrete handlers and decorators\<close>

text \<open>
  \<^verbatim>\<open>def search(self, text, engine=None)\<close>, \<^verbatim>\<open>def open(self, url, count=1)\<close>,
  \<^verbatim>\<open>def scroll(self, count=1, *directions)\<close> and \<^verbatim>\<open>def quit()\<close> with a given
  docstring; then \<^verbatim>\<open>def reload(self=None)\<close>, whose receiver carries a default value,
  \<^verbatim>\<open>def tabopen(self, url, *, bg=False)\<close> with a keyword-only parameter, and
  \<^verbatim>\<open>def scroll(self, *directions, count=1)\<close>, whose \<^verbatim>\<open>count\<close> is keyword-only.
  \<open>reg_default\<close> is the decorator \<^verbatim>\<open>register()\<close>.
\<close>

definition handler_search :: func where
  "handler_search = \<lparr> func_id = 1, func_name = ''search'', func_doc = Some ''Search for a text.'',
      func_params = [(''self'', None), (''text'', None), (''engine'', Some PyNone)],
      func_varargs = None, func_kwonly = [] \<rparr>"

definition handler_open :: func where
  "handler_open = \<lparr> func_id = 2, func_name = ''open'', func_doc = Some ''Open an url.'',
      func_params = [(''self'', None), (''url'', None), (''count'', Some (PyInt 1))],
      func_varargs = None, func_kwonly = [] \<rparr>"

definition handler_scroll :: func where
  "handler_scroll = \<lparr> func_id = 3, func_name = ''scroll'', func_doc = None,
      func_params = [(''self'', None), (''count'', Some (PyInt 1))],
      func_varargs = Some ''directions'', func_kwonly = [] \<rparr>"

definition handler_quit :: "string option \<Rightarrow> func" where
  "handler_quit doc = \<lparr> func_id = 4, func_name = ''quit'', func_doc = doc,
      func_params = [], func_varargs = None, func_kwonly = [] \<rparr>"

definition handler_reload :: func where
  "handler_reload = \<lparr> func_id = 5, func_name = ''reload'', func_doc = None,
      func_params = [(''self'', Some PyNone)], func_varargs = None, func_kwonly = [] \<rparr>"

definition handler_tabopen :: func where
  "handler_tabopen = \<lparr> func_id = 6, func_name = ''tabopen'', func_doc = None,
      func_params = [(''self'', None), (''url'', None)], func_varargs = None,
      func_kwonly = [(''bg'', Some (PyBool False))] \<rparr>"

definition handler_scroll_kwcount :: func where
  "handler_scroll_kwcount = \<lparr> func_id = 7, func_name = ''scroll'', func_doc = None,
      func_params = [(''self'', None)], func_varargs = Some ''directions'',
      func_kwonly = [(''count'', Some (PyInt 1))] \<rparr>"

definition reg_default :: register where
  "reg_default = \<lparr> reg_name = None, reg_maxsplit = - 1, reg_hide = False, reg_nargs = None,
      reg_instance = None, reg_completion = None, reg_modes = None, reg_not_modes = None \<rparr>"

lemmas fixture_defs = handler_search_def handler_open_def handler_scroll_def handler_quit_def
  handler_reload_def handler_tabopen_def handler_scroll_kwcount_def reg_default_def

lemmas eval_defs = get_nargs_count_def getfullargspec_def
  decorate_def register_init_def register_call_def resolve_names_def get_desc_def
  index0_def splitlines_def is_linebreak_def is_space_def strip_def lstrip_def
  rstrip_chars_def lower_def lower_char_def

section \<open>The argument specification\<close>

lemma args_getfullargspec [simp]: "args (getfullargspec f) = map fst (func_params f)"
  by (simp add: getfullargspec_def Let_def)

lemma varargs_getfullargspec [simp]: "varargs (getfullargspec f) = func_varargs f"
  by (simp add: getfullargspec_def Let_def)

lemma length_map_filter_snd:
  "length (List.map_filter snd ps) = length (filter (\<lambda>p. snd p \<noteq> None) ps)"
  by (induction ps) (auto simp: List.map_filter_simps split: option.splits)

lemma defaultcount_getfullargspec:
  "(case defaults (getfullargspec f) of Some ds \<Rightarrow> int (length ds) | None \<Rightarrow> 0) =
   int (length (default_params f))"
proof -
  have "length (List.map_filter snd (func_params f)) = length (default_params f)"
    by (simp add: length_map_filter_snd default_params_def)
  then show ?thesis
    by (auto simp: getfullargspec_def Let_def)
qed

lemma length_filter_neq_distinct:
  "distinct (map fst ps) \<Longrightarrow>
   int (length (filter (\<lambda>p. fst p \<noteq> n) ps)) =
   (if n \<in> set (map fst ps) then int (length ps) - 1 else int (length ps))"
proof (induction ps)
  case Nil
  then show ?case by simp
next
  case (Cons p ps)
  then show ?case by (cases "fst p = n") (auto simp: image_iff)
qed

lemma argcount_nonreceiver:
  assumes "wf_signature f"
  shows "''self'' \<in> set (map fst (func_params f)) \<Longrightarrow>
           int (length (nonreceiver_params f)) = int (length (func_params f)) - 1"
    and "''self'' \<notin> set (map fst (func_params f)) \<Longrightarrow>
           int (length (nonreceiver_params f)) = int (length (func_params f))"
  using length_filter_neq_distinct [of "func_params f" "''self''"] assms
  by (simp_all add: wf_signature_def nonreceiver_params_def)

text \<open>
  Without an override, the result in terms of the parameters: \<^verbatim>\<open>argcount\<close> is the
  number of parameters other than the receiver, \<^verbatim>\<open>defaultcount\<close> the number of
  parameters that carry a default value.
\<close>

lemma get_nargs_count_derived:
  assumes "reg_nargs self = None" and "wf_signature f"
  shows "get_nargs_count self f =
      Inr (''count'' \<in> set (map fst (func_params f)),
           Some (int (length (nonreceiver_params f)) - int (length (default_params f))),
           (if func_varargs f \<noteq> None then None
            else Some (int (length (nonreceiver_params f))
                       - (if ''count'' \<in> set (map fst (func_params f)) then 1 else 0))))"
proof (cases "''self'' \<in> set (map fst (func_params f))")
  case True
  with argcount_nonreceiver(1) [OF assms(2)] defaultcount_getfullargspec [of f] assms(1)
  show ?thesis
    by (simp add: get_nargs_count_def Let_def)
next
  case False
  with argcount_nonreceiver(2) [OF assms(2)] defaultcount_getfullargspec [of f] assms(1)
  show ?thesis
    by (simp add: get_nargs_count_def Let_def)
qed

text \<open>
  When the receiver carries no default value, as in every method definition, the
  positional parameters that carry one are all among the parameters other than the
  receiver.
\<close>

lemma default_params_nonreceiver:
  assumes "''self'' \<notin> set (map fst (default_params f))"
  shows "default_params f = nonreceiver_defaults f"
proof -
  have "\<And>p. p \<in> set (func_params f) \<Longrightarrow> snd p \<noteq> None \<Longrightarrow> fst p \<noteq> ''self''"
    using assms by (force simp: default_params_def image_iff)
  then have "filter (\<lambda>p. snd p \<noteq> None) (func_params f) =
             filter (\<lambda>p. fst p \<noteq> ''self'' \<and> snd p \<noteq> None) (func_params f)"
    by (intro filter_cong) auto
  then show ?thesis
    by (simp add: default_params_def nonreceiver_defaults_def nonreceiver_params_def conj_commute)
qed

lemma wf_signature_remove_param: "wf_signature f \<Longrightarrow> wf_signature (remove_param n f)"
  by (simp add: wf_signature_def remove_param_def distinct_map_filter)

lemma names_remove_param:
  "set (map fst (func_params (remove_param n f))) = set (map fst (func_params f)) - {n}"
  by (auto simp: remove_param_def)

lemma nonreceiver_remove_count:
  assumes "wf_signature f" and "''count'' \<in> set (map fst (func_params f))"
  shows "int (length (nonreceiver_params (remove_param ''count'' f))) =
         int (length (nonreceiver_params f)) - 1"
proof -
  have d: "distinct (map fst (nonreceiver_params f))"
    using assms(1) by (simp add: wf_signature_def nonreceiver_params_def distinct_map_filter)
  have m: "''count'' \<in> set (map fst (nonreceiver_params f))"
    using assms(2) by (auto simp: nonreceiver_params_def)
  have "nonreceiver_params (remove_param ''count'' f) =
        filter (\<lambda>p. fst p \<noteq> ''count'') (nonreceiver_params f)"
    by (simp add: nonreceiver_params_def remove_param_def conj_commute)
  with length_filter_neq_distinct [OF d, of "''count''"] m show ?thesis by simp
qed

lemma default_remove_count:
  assumes "wf_signature f" and "(''count'', Some v) \<in> set (func_params f)"
  shows "int (length (default_params (remove_param ''count'' f))) =
         int (length (default_params f)) - 1"
proof -
  have d: "distinct (map fst (default_params f))"
    using assms(1) by (simp add: wf_signature_def default_params_def distinct_map_filter)
  have m: "''count'' \<in> set (map fst (default_params f))"
    using assms(2) by (force simp: default_params_def)
  have "default_params (remove_param ''count'' f) =
        filter (\<lambda>p. fst p \<noteq> ''count'') (default_params f)"
    by (simp add: default_params_def remove_param_def conj_commute)
  with length_filter_neq_distinct [OF d, of "''count''"] m show ?thesis by simp
qed

section \<open>Arity derived from the signature\<close>

text \<open>
  C1, as the claim states it, fails, in two ways. \<^verbatim>\<open>def reload(self=None)\<close> has no
  parameter other than the receiver, so \<open>P = 0\<close> and \<open>D = 0\<close>, yet \<^verbatim>\<open>minargs\<close> is
  \<open>-1\<close>: the default value of the receiver is subtracted. And
  \<^verbatim>\<open>def tabopen(self, url, *, bg=False)\<close> has \<open>P = 2\<close> and \<open>D = 1\<close>, yet \<^verbatim>\<open>maxargs\<close>
  is \<open>1\<close>: keyword-only parameters are not read.
\<close>

theorem nargs_receiver_default_kwonly_counterexample:
  "''count'' \<notin> set (map fst (signature_params handler_reload)) \<and>
   func_varargs handler_reload = None \<and>
   length (spec_params handler_reload) = 0 \<and> length (spec_defaults handler_reload) = 0 \<and>
   get_nargs_count reg_default handler_reload = Inr (False, Some (- 1), Some 0) \<and>
   ''count'' \<notin> set (map fst (signature_params handler_tabopen)) \<and>
   func_varargs handler_tabopen = None \<and>
   length (spec_params handler_tabopen) = 2 \<and> length (spec_defaults handler_tabopen) = 1 \<and>
   get_nargs_count reg_default handler_tabopen = Inr (False, Some 1, Some 1) \<and>
   get_nargs_count reg_default handler_reload \<noteq>
     Inr (False,
          Some (int (length (spec_params handler_reload))
                - int (length (spec_defaults handler_reload))),
          Some (int (length (spec_params handler_reload)))) \<and>
   get_nargs_count reg_default handler_tabopen \<noteq>
     Inr (False,
          Some (int (length (spec_params handler_tabopen))
                - int (length (spec_defaults handler_tabopen))),
          Some (int (length (spec_params handler_tabopen))))"
  by (simp add: fixture_defs eval_defs signature_params_def spec_params_def spec_defaults_def)

text \<open>
  C1, amended. For a handler with no positional parameter named \<^verbatim>\<open>count\<close>, no
  \<^verbatim>\<open>*args\<close> parameter and a receiver that carries no default value, resolved without an
  override: with \<open>P\<close> the number of positional parameters other than the receiver, of
  which \<open>D\<close> carry a default value, \<^verbatim>\<open>minargs\<close> is \<open>P - D\<close> and \<^verbatim>\<open>maxargs\<close> is
  \<open>P\<close>. Keyword-only parameters are not counted.
\<close>

theorem nargs_no_count_no_varargs:
  assumes "wf_signature f"
    and "''count'' \<notin> set (map fst (func_params f))"
    and "func_varargs f = None"
    and "reg_nargs self = None"
    and "''self'' \<notin> set (map fst (default_params f))"
  shows "get_nargs_count self f =
           Inr (False,
                Some (int (length (nonreceiver_params f)) - int (length (nonreceiver_defaults f))),
                Some (int (length (nonreceiver_params f))))"
  using get_nargs_count_derived [OF assms(4) assms(1)] assms(2,3)
    default_params_nonreceiver [OF assms(5)]
  by simp

theorem nargs_no_count_no_varargs_witness:
  "wf_signature handler_search \<and>
   ''count'' \<notin> set (map fst (func_params handler_search)) \<and>
   func_varargs handler_search = None \<and> reg_nargs reg_default = None \<and>
   ''self'' \<notin> set (map fst (default_params handler_search)) \<and>
   length (nonreceiver_params handler_search) = 2 \<and>
   length (nonreceiver_defaults handler_search) = 1 \<and>
   get_nargs_count reg_default handler_search = Inr (False, Some 1, Some 2)"
proof -
  have h: "wf_signature handler_search"
    "''count'' \<notin> set (map fst (func_params handler_search))"
    "func_varargs handler_search = None" "reg_nargs reg_default = None"
    "''self'' \<notin> set (map fst (default_params handler_search))"
    by (simp_all add: wf_signature_def default_params_def fixture_defs)
  have n: "length (nonreceiver_params handler_search) = 2"
    "length (nonreceiver_defaults handler_search) = 1"
    by (simp_all add: nonreceiver_params_def nonreceiver_defaults_def fixture_defs)
  from nargs_no_count_no_varargs [OF h] h n show ?thesis by simp
qed

text \<open>
  C2, as the claim states it, fails: \<^verbatim>\<open>def scroll(self, *directions, count=1)\<close> has a
  parameter named \<^verbatim>\<open>count\<close> that carries a default value, yet count is not supported,
  since a keyword-only parameter is not in \<^verbatim>\<open>spec.args\<close>.
\<close>

theorem kwonly_count_counterexample:
  "(''count'', Some (PyInt 1)) \<in> set (signature_params handler_scroll_kwcount) \<and>
   reg_nargs reg_default = None \<and>
   get_nargs_count reg_default handler_scroll_kwcount = Inr (False, Some 0, None)"
  by (simp add: fixture_defs eval_defs signature_params_def)

text \<open>
  C2, amended. For a handler with a positional parameter named \<^verbatim>\<open>count\<close> that carries a
  default value, resolved without an override: count is supported, and \<^verbatim>\<open>minargs\<close> and
  \<^verbatim>\<open>maxargs\<close> are those of the same signature without the \<^verbatim>\<open>count\<close> parameter (for
  which count is not supported).
\<close>

theorem count_transparent:
  assumes "wf_signature f"
    and "(''count'', Some v) \<in> set (func_params f)"
    and "reg_nargs self = None"
  shows "\<exists>r. get_nargs_count self f = Inr (True, r) \<and>
             get_nargs_count self (remove_param ''count'' f) = Inr (False, r)"
proof -
  have c: "''count'' \<in> set (map fst (func_params f))"
    using assms(2) by force
  have v: "func_varargs (remove_param ''count'' f) = func_varargs f"
    by (simp add: remove_param_def)
  have n: "''count'' \<notin> set (map fst (func_params (remove_param ''count'' f)))"
    using names_remove_param [of "''count''" f] by blast
  show ?thesis
    using get_nargs_count_derived [OF assms(3) assms(1)]
      get_nargs_count_derived [OF assms(3) wf_signature_remove_param [OF assms(1)], of "''count''"]
      nonreceiver_remove_count [OF assms(1) c] default_remove_count [OF assms(1,2)] c v n
    by simp
qed

theorem count_transparent_witness:
  "wf_signature handler_open \<and> (''count'', Some (PyInt 1)) \<in> set (func_params handler_open) \<and>
   reg_nargs reg_default = None \<and>
   get_nargs_count reg_default handler_open = Inr (True, Some 1, Some 1) \<and>
   get_nargs_count reg_default (remove_param ''count'' handler_open) = Inr (False, Some 1, Some 1)"
proof -
  have h: "wf_signature handler_open"
    "(''count'', Some (PyInt 1)) \<in> set (func_params handler_open)"
    "reg_nargs reg_default = None"
    by (simp_all add: wf_signature_def fixture_defs)
  have e: "get_nargs_count reg_default handler_open = Inr (True, Some 1, Some 1)"
    by (simp add: fixture_defs eval_defs)
  from count_transparent [OF h] e h show ?thesis by auto
qed

text \<open>
  C10. For a handler with a \<^verbatim>\<open>*args\<close> parameter, resolved without an override,
  \<^verbatim>\<open>maxargs\<close> is \<^verbatim>\<open>None\<close> (no upper bound) whether or not a parameter named
  \<^verbatim>\<open>count\<close> is present, and \<^verbatim>\<open>minargs\<close> is the number of parameters other than the
  receiver minus the number of default values.
\<close>

theorem varargs_unbounded:
  assumes "wf_signature f"
    and "func_varargs f = Some va"
    and "reg_nargs self = None"
  shows "get_nargs_count self f =
           Inr (''count'' \<in> set (map fst (func_params f)),
                Some (int (length (nonreceiver_params f)) - int (length (default_params f))),
                None)"
  using get_nargs_count_derived [OF assms(3) assms(1)] assms(2) by simp

theorem varargs_unbounded_witness:
  "wf_signature handler_scroll \<and> func_varargs handler_scroll = Some ''directions'' \<and>
   reg_nargs reg_default = None \<and>
   ''count'' \<in> set (map fst (func_params handler_scroll)) \<and>
   get_nargs_count reg_default handler_scroll = Inr (True, Some 0, None)"
proof -
  have h: "wf_signature handler_scroll" "func_varargs handler_scroll = Some ''directions''"
    "reg_nargs reg_default = None"
    by (simp_all add: wf_signature_def fixture_defs)
  have n: "''count'' \<in> set (map fst (func_params handler_scroll))"
    "length (nonreceiver_params handler_scroll) = 1"
    "length (default_params handler_scroll) = 1"
    by (simp_all add: nonreceiver_params_def default_params_def fixture_defs)
  from varargs_unbounded [OF h] h n show ?thesis by simp
qed

section \<open>Explicit arity\<close>

text \<open>
  C7. Whatever the handler's signature, the override \<^verbatim>\<open>nargs=N\<close> with an int \<open>N\<close>
  gives \<^verbatim>\<open>minargs = maxargs = N\<close>, and a pair \<^verbatim>\<open>nargs=(min, max)\<close> is returned as it
  is, \<^verbatim>\<open>max\<close> being an int or \<^verbatim>\<open>None\<close>.
\<close>

theorem nargs_override:
  "get_nargs_count (self\<lparr>reg_nargs := Some (NargsInt n)\<rparr>) f =
     Inr (''count'' \<in> set (map fst (func_params f)), Some n, Some n) \<and>
   get_nargs_count (self\<lparr>reg_nargs := Some (NargsSeq [mn, mx])\<rparr>) f =
     Inr (''count'' \<in> set (map fst (func_params f)), mn, mx)"
  by (simp add: get_nargs_count_def Let_def)

theorem nargs_override_witness:
  "get_nargs_count (reg_default\<lparr>reg_nargs := Some (NargsInt 3)\<rparr>) handler_open =
     Inr (True, Some 3, Some 3) \<and>
   get_nargs_count (reg_default\<lparr>reg_nargs := Some (NargsSeq [Some 1, None])\<rparr>) handler_search =
     Inr (False, Some 1, None)"
  using nargs_override [where self = reg_default and n = 3 and f = handler_open]
    nargs_override [where self = reg_default and f = handler_search and mn = "Some 1"
      and mx = None]
  by (simp add: fixture_defs)

lemma get_nargs_count_bad_length:
  assumes "reg_nargs self = Some (NargsSeq xs)" and "length xs \<noteq> 2"
  shows "get_nargs_count self f = Inl ValueError"
proof -
  have "(case xs of [minargs, maxargs] \<Rightarrow> Inr (c, (minargs, maxargs)) | _ \<Rightarrow> Inl ValueError)
        = (Inl ValueError :: error + (bool \<times> (int option \<times> int option)))" for c
    using assms(2) by (auto split: list.splits)
  then show ?thesis
    using assms(1) by (simp add: get_nargs_count_def Let_def)
qed

text \<open>
  C3, as the claim states it, fails: a pair whose minimum exceeds its maximum is not
  rejected. \<^verbatim>\<open>@register(name="quit", nargs=(2, 1))\<close> on \<^verbatim>\<open>def quit()\<close> returns the
  handler and stores a record with the arity \<^verbatim>\<open>(2, 1)\<close>.
\<close>

theorem min_exceeds_max_accepted:
  "get_nargs_count (reg_default\<lparr>reg_nargs := Some (NargsSeq [Some 2, Some 1])\<rparr>) (handler_quit None)
     = Inr (False, Some 2, Some 1) \<and>
   fst (decorate None (Some (NameStr ''quit'')) (Some (NargsSeq [Some 2, Some 1])) (- 1) False
          None None None (handler_quit None) Map.empty) = Inr (handler_quit None) \<and>
   map_option cmd_nargs
     (snd (decorate None (Some (NameStr ''quit'')) (Some (NargsSeq [Some 2, Some 1])) (- 1) False
          None None None (handler_quit None) Map.empty) ''quit'') = Some (Some 2, Some 1)"
  by (simp add: fixture_defs eval_defs)

text \<open>
  C3, amended. An override that is a sequence of more or fewer than two elements makes
  the arity resolution raise \<^verbatim>\<open>ValueError\<close>; the call of the decorator then raises, and
  the dictionary is as it was. (A pair is returned as it is, whatever its two elements.)
\<close>

theorem malformed_nargs_length:
  assumes "reg_nargs self = Some (NargsSeq xs)" and "length xs \<noteq> 2"
  shows "get_nargs_count self f = Inl ValueError \<and>
         isl (fst (register_call self f d)) \<and> snd (register_call self f d) = d"
  using get_nargs_count_bad_length [OF assms]
  by (auto simp: register_call_def split: sum.splits prod.splits)

theorem malformed_nargs_length_witness:
  "reg_nargs (reg_default\<lparr>reg_nargs := Some (NargsSeq [Some 1, Some 2, Some 3])\<rparr>)
     = Some (NargsSeq [Some 1, Some 2, Some 3]) \<and>
   length [Some (1::int), Some 2, Some 3] \<noteq> 2 \<and>
   get_nargs_count (reg_default\<lparr>reg_nargs := Some (NargsSeq [Some 1, Some 2, Some 3])\<rparr>)
     handler_open = Inl ValueError \<and>
   register_call (reg_default\<lparr>reg_nargs := Some (NargsSeq [Some 1, Some 2, Some 3])\<rparr>)
     handler_open Map.empty = (Inl ValueError, Map.empty)"
proof -
  let ?r = "reg_default\<lparr>reg_nargs := Some (NargsSeq [Some 1, Some 2, Some 3])\<rparr>"
  have h: "reg_nargs ?r = Some (NargsSeq [Some 1, Some 2, Some 3])"
    "length [Some (1::int), Some 2, Some 3] \<noteq> 2"
    by simp_all
  have r: "resolve_names ?r handler_open = Inr (''open'', [''open''])"
    by (simp add: fixture_defs eval_defs)
  from malformed_nargs_length [OF h, of handler_open Map.empty] h r show ?thesis
    by (simp add: register_call_def)
qed

section \<open>Mutually exclusive mode lists\<close>

text \<open>
  C6. When both \<^verbatim>\<open>modes\<close> and \<^verbatim>\<open>not_modes\<close> are given, the constructor raises
  \<^verbatim>\<open>ValueError\<close> (the configuration error of the specification); the decoration raises
  it too, the handler is not registered and the dictionary is as it was.
\<close>

theorem modes_and_not_modes_rejected:
  assumes "mo = Some ms" and "nmo = Some nms"
  shows "register_init inst nm na msp hi co mo nmo = Inl ValueError \<and>
         decorate inst nm na msp hi co mo nmo f d = (Inl ValueError, d)"
  using assms by (simp add: register_init_def decorate_def)

theorem modes_and_not_modes_rejected_witness:
  "register_init None None None (- 1) False None (Some [''normal'']) (Some [''insert''])
     = Inl ValueError \<and>
   decorate None None None (- 1) False None (Some [''normal'']) (Some [''insert''])
     handler_open Map.empty = (Inl ValueError, Map.empty)"
  using modes_and_not_modes_rejected [of "Some [''normal'']" "[''normal'']"
      "Some [''insert'']" "[''insert'']" None None None "- 1" False None handler_open Map.empty]
  by simp

section \<open>The description\<close>

lemma splitlines_from_first:
  "cur \<noteq> [] \<or> s \<noteq> [] \<Longrightarrow>
   index0 (splitlines_from cur s) = Inr (rev cur @ first_line s)"
proof (induction cur s rule: splitlines_from.induct)
  case (1 cur)
  then show ?case by (simp add: index0_def first_line_def)
next
  case (2 cur c)
  then show ?case by (simp add: index0_def first_line_def)
next
  case (3 cur c d cs)
  then show ?case by (simp add: index0_def first_line_def)
qed

text \<open>\<^verbatim>\<open>doc.splitlines()[0]\<close> is the first line, and raises on the empty text.\<close>

lemma index0_splitlines:
  "index0 (splitlines doc) = (if doc = [] then Inl IndexError else Inr (first_line doc))"
  using splitlines_from_first [of "[]" doc]
  by (simp add: splitlines_def index0_def)

lemma rstrip_period_snoc:
  "rstrip_chars ''.'' (s @ [c]) = (if c = CHR ''.'' then rstrip_chars ''.'' s else s @ [c])"
  by (simp add: rstrip_chars_def)

text \<open>\<^verbatim>\<open>rstrip('.')\<close> removes every trailing period.\<close>

lemma rstrip_strip_all_periods: "rstrip_chars ''.'' s = strip_all_periods s"
proof (induction s rule: strip_all_periods.induct)
  case (1 s)
  show ?case
  proof (cases "s \<noteq> [] \<and> last s = CHR ''.''")
    case True
    then have s: "s = butlast s @ [CHR ''.'']"
      by (metis append_butlast_last_id)
    have "rstrip_chars ''.'' s = rstrip_chars ''.'' (butlast s)"
      using rstrip_period_snoc [of "butlast s" "CHR ''.''"] s by simp
    also have "\<dots> = strip_all_periods (butlast s)"
      using 1 True by simp
    also have "\<dots> = strip_all_periods s"
      using True by (subst (2) strip_all_periods.simps) simp
    finally show ?thesis .
  next
    case False
    then have "rstrip_chars ''.'' s = s"
      by (cases s rule: rev_cases) (auto simp: rstrip_chars_def)
    moreover have "strip_all_periods s = s"
      using False by (subst strip_all_periods.simps) auto
    ultimately show ?thesis by simp
  qed
qed

lemma get_desc_eq:
  "get_desc f =
     (case func_doc f of
        None \<Rightarrow> Inr ''''
      | Some doc \<Rightarrow> if doc = [] then Inl IndexError
                    else Inr (strip_all_periods (strip (first_line doc))))"
  by (simp add: get_desc_def index0_splitlines rstrip_strip_all_periods split: option.splits)

section \<open>Registration\<close>

lemma store_all_apply:
  "store_all ns cmd d = (\<lambda>k. if k \<in> set ns then Some cmd else d k)"
  by (induction ns arbitrary: d) (auto simp: fun_eq_iff)

lemma resolve_names_eq:
  "resolve_names self f =
     (case reg_name self of
        None \<Rightarrow> Inr (lower (func_name f), [lower (func_name f)])
      | Some (NameStr s) \<Rightarrow> Inr (s, [s])
      | Some (NameList []) \<Rightarrow> Inl IndexError
      | Some (NameList (m # l)) \<Rightarrow> Inr (m, m # l))"
  by (simp add: resolve_names_def index0_def split: option.splits name_arg.splits list.splits)

lemma register_call_eq:
  assumes "resolve_names self f = Inr (mainname, names)"
    and "get_nargs_count self f = Inr (count, nargs)"
    and "get_desc f = Inr desc"
  shows "register_call self f d =
     (Inr f, store_all names
        \<lparr> cmd_name = mainname, cmd_maxsplit = reg_maxsplit self, cmd_hide = reg_hide self,
          cmd_nargs = nargs, cmd_count = count, cmd_desc = desc,
          cmd_instance = reg_instance self, cmd_handler = f,
          cmd_completion = reg_completion self, cmd_modes = reg_modes self,
          cmd_not_modes = reg_not_modes self \<rparr> d)"
  using assms by (simp add: register_call_def)

text \<open>A call either raises and leaves the dictionary alone, or all three steps succeed.\<close>

lemma register_call_cases:
  obtains (error) e where "register_call self f d = (Inl e, d)"
  | (ok) mainname names count nargs desc where
      "resolve_names self f = Inr (mainname, names)"
      "get_nargs_count self f = Inr (count, nargs)"
      "get_desc f = Inr desc"
proof (cases "resolve_names self f")
  case (Inl e)
  then have "register_call self f d = (Inl e, d)" by (simp add: register_call_def)
  then show ?thesis by (rule error)
next
  case rn: (Inr p)
  obtain mainname names where p: "p = (mainname, names)" by (cases p)
  show ?thesis
  proof (cases "get_nargs_count self f")
    case (Inl e)
    then have "register_call self f d = (Inl e, d)" using rn p by (simp add: register_call_def)
    then show ?thesis by (rule error)
  next
    case gn: (Inr q)
    obtain count nargs where q: "q = (count, nargs)" by (cases q)
    show ?thesis
    proof (cases "get_desc f")
      case (Inl e)
      then have "register_call self f d = (Inl e, d)"
        using rn p gn q by (simp add: register_call_def)
      then show ?thesis by (rule error)
    next
      case (Inr desc)
      with rn p gn q show ?thesis by (auto intro: ok)
    qed
  qed
qed

text \<open>
  The call returns exactly when the name is not the empty list, an iterable \<^verbatim>\<open>nargs\<close>
  has two elements and the docstring is not the empty text.
\<close>

lemma register_call_succeeds_iff:
  "fst (register_call self f d) = Inr f \<longleftrightarrow>
     reg_name self \<noteq> Some (NameList []) \<and>
     (\<forall>xs. reg_nargs self = Some (NargsSeq xs) \<longrightarrow> length xs = 2) \<and>
     func_doc f \<noteq> Some ''''"
proof -
  have 1: "isl (resolve_names self f) \<longleftrightarrow> reg_name self = Some (NameList [])"
    by (simp add: resolve_names_eq split: option.splits name_arg.splits list.splits)
  have 2: "isl (get_nargs_count self f) \<longleftrightarrow>
           (\<exists>xs. reg_nargs self = Some (NargsSeq xs) \<and> length xs \<noteq> 2)"
    by (auto simp: get_nargs_count_def Let_def split: option.splits nargs_arg.splits list.splits)
  have 3: "isl (get_desc f) \<longleftrightarrow> func_doc f = Some ''''"
    by (simp add: get_desc_eq split: option.splits)
  have "fst (register_call self f d) = Inr f \<longleftrightarrow>
        \<not> isl (resolve_names self f) \<and> \<not> isl (get_nargs_count self f) \<and> \<not> isl (get_desc f)"
    by (auto simp: register_call_def Let_def split: sum.splits prod.splits)
  with 1 2 3 show ?thesis by auto
qed

text \<open>
  C4. \<^verbatim>\<open>@register(name=["q", "quit"], hide=True)\<close> on a handler whose docstring is the
  empty text: \<^verbatim>\<open>"".splitlines()\<close> is the empty list, so the index \<^verbatim>\<open>[0]\<close> raises
  \<^verbatim>\<open>IndexError\<close> and nothing is stored.
\<close>

theorem empty_docstring_raises:
  "decorate None (Some (NameList [''q'', ''quit''])) None (- 1) True None None None
     (handler_quit (Some '''')) Map.empty = (Inl IndexError, Map.empty)"
  by (simp add: fixture_defs eval_defs)

text \<open>
  The same decoration of a handler that has no docstring returns the handler and stores
  one hidden record with the empty description under both names.
\<close>

lemma no_docstring_q_quit:
  "fst (decorate None (Some (NameList [''q'', ''quit''])) None (- 1) True None None None
          (handler_quit None) Map.empty) = Inr (handler_quit None) \<and>
   map_option (\<lambda>c. (cmd_name c, cmd_hide c, cmd_desc c))
     (snd (decorate None (Some (NameList [''q'', ''quit''])) None (- 1) True None None None
          (handler_quit None) Map.empty) ''q'') = Some (''q'', True, '''') \<and>
   snd (decorate None (Some (NameList [''q'', ''quit''])) None (- 1) True None None None
          (handler_quit None) Map.empty) ''quit''
   = snd (decorate None (Some (NameList [''q'', ''quit''])) None (- 1) True None None None
          (handler_quit None) Map.empty) ''q''"
  by (simp add: fixture_defs eval_defs)

text \<open>
  C5, as the claim states it, fails: every trailing period is removed, not one. The
  handler \<^verbatim>\<open>quit\<close> with the docstring \<^verbatim>\<open>"Quit.."\<close> is registered with the
  description \<^verbatim>\<open>"Quit"\<close>, where the claim gives \<^verbatim>\<open>"Quit."\<close>.
\<close>

theorem trailing_periods_counterexample:
  "func_doc (handler_quit (Some ''Quit..'')) = Some ''Quit..'' \<and>
   map_option cmd_desc
     (snd (decorate None None None (- 1) False None None None
             (handler_quit (Some ''Quit..'')) Map.empty) ''quit'') = Some ''Quit'' \<and>
   strip_one_period (strip (first_line ''Quit..'')) = ''Quit.''"
  by (simp add: fixture_defs eval_defs first_line_def strip_one_period_def)

text \<open>
  C5, amended. For a handler whose docstring is not the empty text, every name of the
  registration maps to a record whose description is the first line of the docstring,
  trimmed of surrounding white space and then of all its trailing periods; for a handler
  with no docstring it is the empty string.
\<close>

theorem description_of_record:
  assumes "resolve_names self f = Inr (mainname, names)"
    and "get_nargs_count self f = Inr (count, nargs)"
    and "n \<in> set names"
    and "func_doc f \<noteq> Some ''''"
  shows "\<exists>cmd. snd (register_call self f d) n = Some cmd \<and>
           cmd_desc cmd = (case func_doc f of None \<Rightarrow> ''''
                           | Some doc \<Rightarrow> strip_all_periods (strip (first_line doc)))"
proof -
  let ?desc = "case func_doc f of None \<Rightarrow> ''''
               | Some doc \<Rightarrow> strip_all_periods (strip (first_line doc))"
  have "get_desc f = Inr ?desc"
    using assms(4) by (simp add: get_desc_eq split: option.splits)
  from register_call_eq [OF assms(1,2) this] assms(3) show ?thesis
    by (simp add: store_all_apply)
qed

theorem description_of_record_witness:
  "resolve_names reg_default handler_search = Inr (''search'', [''search'']) \<and>
   get_nargs_count reg_default handler_search = Inr (False, Some 1, Some 2) \<and>
   ''search'' \<in> set [''search''] \<and> func_doc handler_search \<noteq> Some '''' \<and>
   (\<exists>cmd. snd (register_call reg_default handler_search Map.empty) ''search'' = Some cmd \<and>
          cmd_desc cmd = ''Search for a text'')"
proof -
  have h: "resolve_names reg_default handler_search = Inr (''search'', [''search''])"
    "get_nargs_count reg_default handler_search = Inr (False, Some 1, Some 2)"
    "''search'' \<in> set [''search'']" "func_doc handler_search \<noteq> Some ''''"
    by (simp_all add: fixture_defs eval_defs)
  have e: "strip_all_periods (strip (first_line ''Search for a text.'')) = ''Search for a text''"
    by (simp add: rstrip_strip_all_periods [symmetric] first_line_def eval_defs)
  have "func_doc handler_search = Some ''Search for a text.''"
    by (simp add: fixture_defs)
  with description_of_record [OF h, of Map.empty] e h show ?thesis
    by simp
qed

text \<open>
  C8. A registration under a list of three distinct names returns the handler and stores
  one and the same record under each of the three names, and under no other name; the
  record carries the first name of the list, the resolved arity and the description.
\<close>

theorem three_names_one_record:
  assumes "reg_name self = Some (NameList [a, b, c])"
    and "distinct [a, b, c]"
    and "get_nargs_count self f = Inr (count, nargs)"
    and "get_desc f = Inr desc"
  shows "\<exists>cmd. register_call self f d = (Inr f, d(a \<mapsto> cmd, b \<mapsto> cmd, c \<mapsto> cmd)) \<and>
           cmd_name cmd = a \<and> cmd_nargs cmd = nargs \<and> cmd_desc cmd = desc \<and>
           dom (snd (register_call self f d)) = dom d \<union> {a, b, c} \<and> card {a, b, c} = 3"
proof -
  have "resolve_names self f = Inr (a, [a, b, c])"
    using assms(1) by (simp add: resolve_names_eq)
  from register_call_eq [OF this assms(3,4)] assms(2) show ?thesis
    by auto
qed

theorem three_names_one_record_witness:
  "reg_name (reg_default\<lparr>reg_name := Some (NameList [''o'', ''open'', ''go''])\<rparr>)
     = Some (NameList [''o'', ''open'', ''go'']) \<and>
   distinct [''o'', ''open'', ''go''] \<and>
   get_nargs_count (reg_default\<lparr>reg_name := Some (NameList [''o'', ''open'', ''go''])\<rparr>)
     handler_open = Inr (True, Some 1, Some 1) \<and>
   get_desc handler_open = Inr ''Open an url'' \<and>
   (\<exists>cmd. register_call (reg_default\<lparr>reg_name := Some (NameList [''o'', ''open'', ''go''])\<rparr>)
            handler_open Map.empty
          = (Inr handler_open, [''o'' \<mapsto> cmd, ''open'' \<mapsto> cmd, ''go'' \<mapsto> cmd]) \<and>
          cmd_name cmd = ''o'' \<and> cmd_nargs cmd = (Some 1, Some 1) \<and>
          cmd_desc cmd = ''Open an url'')"
proof -
  let ?r = "reg_default\<lparr>reg_name := Some (NameList [''o'', ''open'', ''go''])\<rparr>"
  have h: "reg_name ?r = Some (NameList [''o'', ''open'', ''go''])"
    "distinct [''o'', ''open'', ''go'']"
    "get_nargs_count ?r handler_open = Inr (True, Some 1, Some 1)"
    "get_desc handler_open = Inr ''Open an url''"
    by (simp_all add: fixture_defs eval_defs)
  from three_names_one_record [OF h, of Map.empty] h show ?thesis
    by auto
qed

text \<open>
  C9. Whenever the call of the decorator returns, it returns the handler it was given,
  and every entry of the dictionary afterwards is an entry it had before or a record that
  holds this handler as it is. (By \<open>register_call_cases\<close> a call that raises leaves the
  dictionary unchanged, and \<open>register_call_succeeds_iff\<close> tells when it returns.)
\<close>

theorem register_call_returns_handler:
  assumes "register_call self f d = (Inr h, d')"
  shows "h = f \<and> (\<forall>n cmd. d' n = Some cmd \<longrightarrow> d n = Some cmd \<or> cmd_handler cmd = f)"
proof (cases rule: register_call_cases [of self f d])
  case (error e)
  with assms show ?thesis by simp
next
  case (ok mainname names count nargs desc)
  from register_call_eq [OF ok] assms show ?thesis
    by (auto simp: store_all_apply split: if_splits)
qed

theorem register_call_returns_handler_witness:
  "register_call reg_default handler_open Map.empty
     = (Inr handler_open, snd (register_call reg_default handler_open Map.empty)) \<and>
   map_option cmd_handler (snd (register_call reg_default handler_open Map.empty) ''open'')
     = Some handler_open"
proof -
  have "fst (register_call reg_default handler_open Map.empty) = Inr handler_open"
    by (simp add: register_call_succeeds_iff fixture_defs)
  then have h: "register_call reg_default handler_open Map.empty
     = (Inr handler_open, snd (register_call reg_default handler_open Map.empty))"
    by (simp add: prod_eq_iff)
  have "snd (register_call reg_default handler_open Map.empty) ''open'' \<noteq> None"
    by (simp add: fixture_defs eval_defs)
  then obtain cmd where c:
    "snd (register_call reg_default handler_open Map.empty) ''open'' = Some cmd"
    by auto
  from register_call_returns_handler [OF h] c have "cmd_handler cmd = handler_open"
    by auto
  with c h show ?thesis
    by simp
qed

end
